theory Spec2Isabelle
  imports Complex_Main
begin

section \<open>Heat simulation of udkm1Dsim: data model\<close>

text \<open>
  The development embeds the methods of class \<open>Heat\<close> (file \<open>udkm1Dsim/heat.py\<close>).
  Floating point numbers are read as reals, with exact arithmetic and comparisons, pint
  quantities as their SI magnitudes, numpy arrays as lists (one-dimensional) and lists of
  rows (two-dimensional). Every \<open>raise\<close> and every failing index is a value \<open>Inl e\<close>.
  What the libraries decide in double arithmetic or by their own rules (the number of
  points of \<open>np.arange\<close>, the comparison of a quantity with a list) is a parameter.
\<close>

text \<open>\<open>BrentqError\<close> is the error \<open>brentq\<close> raises when an argument or a function value
  is not a number (a \<open>ValueError\<close> or a \<open>RuntimeError\<close>).\<close>

datatype error = ValueError | IndexError | BrentqError | ZeroDivisionError

datatype warning = WarnSubSystems | WarnPulseWidth | WarnNoDelaysBefore

text \<open>A temperature field: one row per layer, one entry per sub-system.\<close>

type_synonym field = "real list list"

text \<open>An optical penetration depth is a number or infinite (\<open>np.isinf\<close>).\<close>

datatype pen_depth = Finite real | Infinite

text \<open>The sample \<open>self.S\<close> is a collaborator outside this file; the record holds what its
  methods answer: \<open>get_number_of_layers()\<close>, \<open>num_sub_systems\<close>, the first and third
  component of \<open>get_distances_of_layers()\<close>, \<open>get_distances_of_interfaces()\<close>,
  \<open>get_layer_handle(index).opt_pen_depth\<close> and the layer property vectors
  \<open>_int_heat_capacity\<close> (per layer, one function per sub-system), \<open>_thickness\<close>,
  \<open>_mass\<close> and \<open>_area\<close>.\<close>

record sample =
  number_of_layers :: nat
  num_sub_systems :: nat
  d_start :: "real list"
  d_mid :: "real list"
  interfaces :: "real list"
  opt_pen_depth :: "nat \<Rightarrow> pen_depth"
  int_heat_capacities :: "(real \<Rightarrow> real) list list"
  thicknesses :: "real list"
  masses :: "real list"
  areas :: "real list"

text \<open>Functions the class calls and does not define: \<open>helpers.finderb\<close>,
  \<open>scipy.optimize.brentq\<close> and the diffusion integrator \<open>calc_heat_diffusion\<close>.
  They are parameters of the model, and so are two decisions of the libraries:
  \<open>arange_len a b step\<close>, the number of points of \<open>np.arange(a, b, step)\<close>
  (\<open>ceil((b - a) / step)\<close> evaluated in double arithmetic), and \<open>eq_empty_list\<close>, what
  the test \<open>distances == []\<close> of a pint quantity gives when used as a condition
  (a truth value, or an error).\<close>

record externals =
  finderb :: "real \<Rightarrow> real list \<Rightarrow> nat list"
  arange_len :: "real \<Rightarrow> real \<Rightarrow> real \<Rightarrow> nat"
  eq_empty_list :: "real list \<Rightarrow> error + bool"
  brentq :: "(real \<Rightarrow> real) \<Rightarrow> real \<Rightarrow> real \<Rightarrow> error + real"
  calc_heat_diffusion ::
    "field \<Rightarrow> real list \<Rightarrow> real list \<Rightarrow> real list \<Rightarrow> real list \<Rightarrow> error + field list"

record excitation_dict =
  fluence :: "real list"
  delay_pump :: "real list"
  pulse_width :: "real list"

text \<open>The argument of the setter: a single quantity, a dictionary (each of the three keys
  present or not), or anything else.\<close>

datatype excitation_arg =
    Quantity real
  | Dict "real list option" "real list option" "real list option"
  | Other

section \<open>The excitation setter\<close>

text \<open>The \<open>try\<close> block assigns the three entries in order and stops at the first missing
  key; the \<open>KeyError\<close> is caught (a message is printed) and the entries assigned so far stay.\<close>

definition assign_dict ::
  "real list option \<Rightarrow> real list option \<Rightarrow> real list option \<Rightarrow> excitation_dict \<Rightarrow> excitation_dict"
where
  "assign_dict f d w e =
     (case f of None \<Rightarrow> e
      | Some fv \<Rightarrow>
          (case d of None \<Rightarrow> e\<lparr>fluence := fv\<rparr>
           | Some dv \<Rightarrow>
               (case w of None \<Rightarrow> e\<lparr>fluence := fv, delay_pump := dv\<rparr>
                | Some wv \<Rightarrow> e\<lparr>fluence := fv, delay_pump := dv, pulse_width := wv\<rparr>)))"

text \<open>The checks after the assignment. The stored dictionary has already been overwritten
  when a check raises, so the state is returned beside the error. On success only
  \<open>delay_pump\<close> is replaced, by \<open>np.sort\<close> of itself.\<close>

definition validate_excitation :: "excitation_dict \<Rightarrow> excitation_dict \<times> error option" where
  "validate_excitation e =
     (if \<not> (length (fluence e) = length (delay_pump e)
             \<and> length (delay_pump e) = length (pulse_width e))
      then (e, Some ValueError)
      else if length (delay_pump e) \<noteq> length (remdups (delay_pump e))
      then (e, Some ValueError)
      else (e\<lparr>delay_pump := sort (delay_pump e)\<rparr>, None))"

fun excitation_setter :: "excitation_arg \<Rightarrow> excitation_dict \<Rightarrow> excitation_dict \<times> error option" where
  "excitation_setter (Quantity q) e =
     validate_excitation (e\<lparr>fluence := [q], delay_pump := [0], pulse_width := [0]\<rparr>)"
| "excitation_setter (Dict f d w) e = validate_excitation (assign_dict f d w e)"
| "excitation_setter Other e = (e, Some ValueError)"

section \<open>check\_excitation\<close>

text \<open>One entry of the lists \<open>n_excitation\<close> and \<open>res\<close>: the time grid and the delays,
  widths and fluences of the pulses of the group (all three empty for a quiet span).\<close>

record interval =
  sub_delays :: "real list"
  grp_delay_pump :: "real list"
  grp_pulse_width :: "real list"
  grp_fluence :: "real list"

definition window :: real where
  "window = 3 / 2"

definition intp :: real where
  "intp = 1000"

text \<open>\<open>np.r_[a:b:step]\<close> with a real step is \<open>np.arange(a, b, step)\<close>: the points
  \<open>a + j * step\<close>, as many as numpy counts.\<close>

definition arange :: "externals \<Rightarrow> real \<Rightarrow> real \<Rightarrow> real \<Rightarrow> real list" where
  "arange X a b step = map (\<lambda>j. a + real j * step) [0..<arange_len X a b step]"

text \<open>The inner \<open>while\<close> loop, from position \<open>k\<close> with the pulses collected so far in
  \<open>temp\<close>. It returns the last index of the group and the collected pulses.\<close>

function group_end ::
  "real list \<Rightarrow> real list \<Rightarrow> real list \<Rightarrow> nat \<Rightarrow> (real \<times> real \<times> real) list
     \<Rightarrow> error + nat \<times> (real \<times> real \<times> real) list"
where
  "group_end dp pw fl k temp =
     (if k < length dp then
        (if \<not> (k < length pw \<and> k < length fl) then Inl IndexError
         else if k + 1 < length dp then
           (if \<not> (k + 1 < length pw) then Inl IndexError
            else if dp ! k + window * pw ! k \<ge> dp ! (k + 1) - window * pw ! (k + 1) then
              (if pw ! (k + 1) = 0 then Inl ValueError
               else group_end dp pw fl (k + 1) (temp @ [(dp ! k, pw ! k, fl ! k)]))
            else Inr (k, temp @ [(dp ! k, pw ! k, fl ! k)]))
         else Inr (k, temp @ [(dp ! k, pw ! k, fl ! k)]))
      else Inr (k, temp))"
  by pat_completeness auto
termination
  by (relation "measure (\<lambda>(dp, pw, fl, k, temp). length dp - k)") auto

declare group_end.simps [simp del]

text \<open>The time vector of the group \<open>i..k\<close> and the entry appended to \<open>n_excitation\<close>.
  After the inner loop the indices \<open>i..k\<close> are inside all three sequences; \<open>np.min\<close> of an
  empty slice raises.\<close>

definition make_interval ::
  "externals \<Rightarrow> real list \<Rightarrow> real list \<Rightarrow> nat \<Rightarrow> nat \<Rightarrow> (real \<times> real \<times> real) list
     \<Rightarrow> error + interval"
where
  "make_interval X dp pw i k temp =
     (let sl = take (Suc k - i) (drop i pw) in
      if sl = [] then Inl ValueError
      else if \<not> (i < length dp \<and> k < length dp \<and> i < length pw \<and> k < length pw)
      then Inl IndexError
      else
        (let delta_delay = min_list sl / intp in
         Inr \<lparr>sub_delays =
                (if delta_delay = 0 then [dp ! i]
                 else arange X (dp ! i - window * pw ! i) (dp ! k + window * pw ! k) delta_delay),
              grp_delay_pump = map fst temp,
              grp_pulse_width = map (\<lambda>t. fst (snd t)) temp,
              grp_fluence = map (\<lambda>t. snd (snd t)) temp\<rparr>))"

text \<open>The outer \<open>while\<close> loop building \<open>n_excitation\<close>.\<close>

function n_excitation_loop ::
  "externals \<Rightarrow> real list \<Rightarrow> real list \<Rightarrow> real list \<Rightarrow> nat \<Rightarrow> interval list
     \<Rightarrow> error + interval list"
where
  "n_excitation_loop X dp pw fl i acc =
     (if i < length dp then
        (case group_end dp pw fl i [] of
           Inl e \<Rightarrow> Inl e
         | Inr (k, temp) \<Rightarrow>
             (case make_interval X dp pw i k temp of
                Inl e \<Rightarrow> Inl e
              | Inr g \<Rightarrow> n_excitation_loop X dp pw fl (k + 1) (acc @ [g])))
      else Inr acc)"
  by pat_completeness auto
termination
proof (relation "measure (\<lambda>(X, dp, pw, fl, i, acc). length dp - i)")
  show "wf (measure (\<lambda>(X, dp, pw, fl, i, acc). length dp - i))"
    by simp
next
  fix X :: externals and dp pw fl :: "real list" and i :: nat and acc :: "interval list"
    and x2 :: "nat \<times> (real \<times> real \<times> real) list" and k temp g
  assume "i < length dp" and "group_end dp pw fl i [] = Inr x2" and "(k, temp) = x2"
  then have run: "group_end dp pw fl i [] = Inr (k, temp)"
    by simp
  have "j \<le> j'" if "group_end dp pw fl j t = Inr (j', t')" for j t j' t'
    using that
  proof (induction dp pw fl j t rule: group_end.induct)
    case (1 dp pw fl k temp)
    show ?case
    proof (cases "k + 1 < length dp \<and> k < length pw \<and> k < length fl \<and> k + 1 < length pw
        \<and> dp ! k + window * pw ! k \<ge> dp ! (k + 1) - window * pw ! (k + 1)
        \<and> pw ! (k + 1) \<noteq> 0")
      case True
      with "1.prems"
      have "group_end dp pw fl (k + 1) (temp @ [(dp ! k, pw ! k, fl ! k)]) = Inr (j', t')"
        by (subst (asm) group_end.simps) simp
      with True "1.IH" have "k + 1 \<le> j'"
        by simp
      then show ?thesis by simp
    next
      case False
      with "1.prems" show ?thesis
        by (subst (asm) group_end.simps) (auto split: if_splits)
    qed
  qed
  from this [OF run] have "i \<le> k" .
  with \<open>i < length dp\<close>
  show "((X, dp, pw, fl, k + 1, acc @ [g]), (X, dp, pw, fl, i, acc))
          \<in> measure (\<lambda>(X, dp, pw, fl, i, acc). length dp - i)"
    by simp
qed

declare n_excitation_loop.simps [simp del]

definition quiet :: "real list \<Rightarrow> interval" where
  "quiet ds = \<lparr>sub_delays = ds, grp_delay_pump = [], grp_pulse_width = [], grp_fluence = []\<rparr>"

text \<open>The \<open>for\<close> loop over \<open>n_excitation\<close> that interleaves the quiet spans.
  \<open>excitation[0][-1]\<close> and \<open>n_excitation[i+1][0][0]\<close> raise on an empty grid.\<close>

fun traverse :: "real list \<Rightarrow> interval list \<Rightarrow> error + interval list" where
  "traverse delays [] = Inr []"
| "traverse delays [g] =
     (if sub_delays g = [] then Inl IndexError
      else
        (let after = filter (\<lambda>d. d > last (sub_delays g)) delays
         in Inr (g # (if after \<noteq> [] then [quiet after] else []))))"
| "traverse delays (g # g' # gs) =
     (if sub_delays g = [] \<or> sub_delays g' = [] then Inl IndexError
      else
        (let between = filter (\<lambda>d. d > last (sub_delays g) \<and> d < hd (sub_delays g')) delays
         in case traverse delays (g' # gs) of
              Inl e \<Rightarrow> Inl e
            | Inr rest \<Rightarrow> Inr (g # (if between \<noteq> [] then [quiet between] else []) @ rest)))"

text \<open>The state of the \<open>Heat\<close> object that \<open>check_excitation\<close> reads.\<close>

record heat =
  S :: sample
  heat_diffusion :: bool
  excitation :: excitation_dict

text \<open>The local \<open>pulse_width\<close>: rebound to zeros (of the shape of \<open>fluence\<close>) when heat
  diffusion is off and some stored width is positive.\<close>

definition local_pulse_width :: "heat \<Rightarrow> real list" where
  "local_pulse_width h =
     (if sum_list (pulse_width (excitation h)) > 0 \<and> \<not> heat_diffusion h
      then replicate (length (fluence (excitation h))) 0
      else pulse_width (excitation h))"

definition entry_warnings :: "heat \<Rightarrow> warning list" where
  "entry_warnings h =
     (if num_sub_systems (S h) > 1 \<and> \<not> heat_diffusion h then [WarnSubSystems] else [])
     @ (if sum_list (pulse_width (excitation h)) > 0 \<and> \<not> heat_diffusion h
        then [WarnPulseWidth] else [])"

text \<open>The part of \<open>check_excitation\<close> after the warnings: the result list \<open>res\<close>
  and the warning about missing delays before the first excitation.\<close>

definition build_res :: "real list \<Rightarrow> interval list \<Rightarrow> warning list \<times> (error + interval list)" where
  "build_res delays n_exc =
     (case n_exc of
        [] \<Rightarrow> ([], Inl IndexError)
      | g0 # _ \<Rightarrow>
          if sub_delays g0 = [] then ([], Inl ValueError)
          else
            (let before = filter (\<lambda>d. d < min_list (sub_delays g0)) delays;
                 ws = (if before \<noteq> [] then [] else [WarnNoDelaysBefore]);
                 res0 = (if before \<noteq> [] then [quiet before] else [])
             in case traverse delays n_exc of
                  Inl e \<Rightarrow> (ws, Inl e)
                | Inr rest \<Rightarrow> (ws, Inr (res0 @ rest))))"

text \<open>\<open>check_excitation\<close> in state-passing form: the object after the call, the warnings
  emitted, and the raised error or the returned tuple
  \<open>(res, fluence, delay_pump, pulse_width)\<close>.\<close>

definition check_excitation ::
  "externals \<Rightarrow> heat \<Rightarrow> real list
     \<Rightarrow> heat \<times> warning list \<times> (error + interval list \<times> real list \<times> real list \<times> real list)"
where
  "check_excitation X h delays =
     (let fl = fluence (excitation h);
          dp = delay_pump (excitation h);
          pw = local_pulse_width h;
          ws = entry_warnings h
      in case n_excitation_loop X dp pw fl 0 [] of
           Inl e \<Rightarrow> (h, ws, Inl e)
         | Inr n_exc \<Rightarrow>
             (case build_res delays n_exc of
                (ws', Inl e) \<Rightarrow> (h, ws @ ws', Inl e)
              | (ws', Inr res) \<Rightarrow> (h, ws @ ws', Inr (res, fl, dp, pw))))"

section \<open>get\_absorption\_profile\<close>

text \<open>The assignment \<open>dalpha_dz[k:k+m] = values\<close> with \<open>m\<close> values: the slice is clipped
  to the array, and numpy broadcasts a clipped slice only from a single value.\<close>

definition slice_assign :: "real list \<Rightarrow> nat \<Rightarrow> real list \<Rightarrow> error + real list" where
  "slice_assign a k vals =
     (let n = length a; m = length vals; sl = min n (k + m) - min n k
      in if sl = m then Inr (take k a @ vals @ drop (k + m) a)
         else if m = 1 then Inr (take k a @ replicate sl (hd vals) @ drop (k + sl) a)
         else Inl ValueError)"

text \<open>The mesh points selected for layer \<open>i\<close>: the upper interface belongs to the last
  layer only.\<close>

definition in_layer :: "real list \<Rightarrow> nat \<Rightarrow> real \<Rightarrow> bool" where
  "in_layer ifs i z =
     (if i \<ge> length ifs - 2 then z \<ge> ifs ! i \<and> z \<le> ifs ! (i + 1)
      else z \<ge> ifs ! i \<and> z < ifs ! (i + 1))"

text \<open>One pass of the \<open>for\<close> loop over the layers, on the state \<open>(dalpha_dz, I0, k)\<close>.
  A division by a depth of zero (a \<open>ZeroDivisionError\<close> while \<open>I0\<close> is the integer 1,
  values that are not numbers afterwards) stops the model.\<close>

definition layer_step ::
  "sample \<Rightarrow> externals \<Rightarrow> real list \<Rightarrow> nat \<Rightarrow> real list \<times> real \<times> nat
     \<Rightarrow> error + real list \<times> real \<times> nat"
where
  "layer_step smp X distances i st =
     (case st of (dalpha_dz, I0, k) \<Rightarrow>
        (case finderb X (interfaces smp ! i) (d_start smp) of
           [] \<Rightarrow> Inl IndexError
         | index0 # _ \<Rightarrow>
             (let z = filter (in_layer (interfaces smp) i) distances;
                  m = length z
              in case opt_pen_depth smp index0 of
                   Infinite \<Rightarrow> Inr (dalpha_dz, I0, k + m)
                 | Finite depth \<Rightarrow>
                     if depth = 0 then Inl ZeroDivisionError
                     else
                       (case slice_assign dalpha_dz k
                               (map (\<lambda>x. I0 / depth * exp (- (x - interfaces smp ! i) / depth)) z) of
                          Inl e \<Rightarrow> Inl e
                        | Inr dalpha_dz' \<Rightarrow>
                            Inr (dalpha_dz',
                                 I0 * exp (- (interfaces smp ! (i + 1) - interfaces smp ! i) / depth),
                                 k + m)))))"

fun absorb_layers ::
  "sample \<Rightarrow> externals \<Rightarrow> real list \<Rightarrow> nat list \<Rightarrow> real list \<times> real \<times> nat
     \<Rightarrow> error + real list \<times> real \<times> nat"
where
  "absorb_layers smp X distances [] st = Inr st"
| "absorb_layers smp X distances (i # rest) st =
     (case layer_step smp X distances i st of
        Inl e \<Rightarrow> Inl e
      | Inr st' \<Rightarrow> absorb_layers smp X distances rest st')"

text \<open>The argument \<open>distances\<close>: the default, the list \<open>[]\<close>, or a pint quantity
  holding the mesh.\<close>

datatype mesh_arg = Default | Mesh "real list"

text \<open>The test \<open>if distances == []\<close>: true for the default, which selects the mesh of
  layer midpoints; for a quantity it is pint's comparison used as a condition, which
  may raise.\<close>

definition mesh_of :: "sample \<Rightarrow> externals \<Rightarrow> mesh_arg \<Rightarrow> error + real list" where
  "mesh_of smp X distances =
     (case distances of
        Default \<Rightarrow> Inr (d_mid smp)
      | Mesh ds \<Rightarrow>
          (case eq_empty_list X ds of
             Inl e \<Rightarrow> Inl e
           | Inr is_empty \<Rightarrow> Inr (if is_empty then d_mid smp else ds)))"

definition get_absorption_profile :: "sample \<Rightarrow> externals \<Rightarrow> mesh_arg \<Rightarrow> error + real list" where
  "get_absorption_profile smp X distances =
     (case mesh_of smp X distances of
        Inl e \<Rightarrow> Inl e
      | Inr ds \<Rightarrow>
          (case absorb_layers smp X ds [0..<length (interfaces smp) - 1]
                  (replicate (length ds) 0, 1, 0) of
             Inl e \<Rightarrow> Inl e
           | Inr (dalpha_dz, I0, k) \<Rightarrow> Inr dalpha_dz))"

section \<open>check\_initial\_temperature and get\_temperature\_after\_delta\_excitation\<close>

text \<open>Arrays are objects: \<open>final_temp = init_temp\<close> binds a second name to the same array,
  and \<open>final_temp[i] = ...\<close> writes into it. The store is the list of the arrays
  allocated so far, an array's address its position. The initial temperature is passed
  as a number or as the address of an array.\<close>

datatype temp_arg = Scalar real | ArrayRef nat

definition check_initial_temperature ::
  "sample \<Rightarrow> temp_arg \<Rightarrow> field list \<Rightarrow> error + nat \<times> field list"
where
  "check_initial_temperature smp init_temp store =
     (let N = number_of_layers smp; K = num_sub_systems smp
      in case init_temp of
           Scalar t \<Rightarrow> Inr (length store, store @ [replicate N (replicate K t)])
         | ArrayRef a \<Rightarrow>
             if length (concat (store ! a)) = 1
             then Inr (length store, store @ [replicate N (replicate K (hd (concat (store ! a))))])
             else if \<not> (length (store ! a) = N \<and> list_all (\<lambda>row. length row = K) (store ! a))
             then Inl ValueError
             else Inr (a, store))"

text \<open>\<open>E0 = np.array(fluence)*areas[1]\<close>.\<close>

definition deposited_energy :: "sample \<Rightarrow> real list \<Rightarrow> error + real list" where
  "deposited_energy smp fl =
     (if \<not> (1 < length (areas smp)) then Inl IndexError
      else Inr (map (\<lambda>f. f * areas smp ! 1) fl))"

text \<open>\<open>del_E = dalpha_dz[i]*E0*thicknesses[i]\<close>.\<close>

definition absorbed_energy :: "sample \<Rightarrow> real list \<Rightarrow> real list \<Rightarrow> nat \<Rightarrow> real list" where
  "absorbed_energy smp dalpha_dz E0 i = map (\<lambda>e. dalpha_dz ! i * e * thicknesses smp ! i) E0"

text \<open>\<open>brentq\<close> takes numbers: an array of one element converts, with any other
  \<open>brentq\<close> raises.\<close>

definition as_scalar :: "real list \<Rightarrow> error + real" where
  "as_scalar xs = (case xs of [x] \<Rightarrow> Inr x | _ \<Rightarrow> Inl BrentqError)"

text \<open>The loop over \<open>enumerate(int_heat_capacities)\<close>. \<open>init_temp\<close> and \<open>final_temp\<close> are
  the one address \<open>ref\<close>; the root found is written into row \<open>i\<close> of that array.\<close>

fun solve_layers ::
  "sample \<Rightarrow> externals \<Rightarrow> real list \<Rightarrow> real list \<Rightarrow> nat \<Rightarrow> (nat \<times> (real \<Rightarrow> real) list) list
     \<Rightarrow> field list \<Rightarrow> error + field list"
where
  "solve_layers smp X dalpha_dz E0 ref [] store = Inr store"
| "solve_layers smp X dalpha_dz E0 ref ((i, int_heat_capacity) # rest) store =
     (if \<not> (i < length dalpha_dz) then Inl IndexError
      else if dalpha_dz ! i > 0 then
        (if \<not> (i < length (thicknesses smp) \<and> i < length (store ! ref)
                \<and> i < length (masses smp) \<and> int_heat_capacity \<noteq> [])
         then Inl IndexError
         else
           (case as_scalar (store ! ref ! i) of
              Inl e \<Rightarrow> Inl e
            | Inr t1 \<Rightarrow>
                (case as_scalar (absorbed_energy smp dalpha_dz E0 i) of
                   Inl e \<Rightarrow> Inl e
                 | Inr del_E \<Rightarrow>
                     (case brentq X
                             (\<lambda>t. masses smp ! i * (hd int_heat_capacity t - hd int_heat_capacity t1)
                                   - del_E)
                             t1 100000 of
                        Inl e \<Rightarrow> Inl e
                      | Inr t2 \<Rightarrow>
                          solve_layers smp X dalpha_dz E0 ref rest
                            (store[ref := (store ! ref)[i := replicate (length (store ! ref ! i)) t2]])))))
      else solve_layers smp X dalpha_dz E0 ref rest store)"

definition field_minus :: "field \<Rightarrow> field \<Rightarrow> field" where
  "field_minus a b = map2 (map2 (-)) a b"

text \<open>The result is the address of \<open>final_temp\<close>, the new array \<open>delta_T\<close> and the store.\<close>

definition get_temperature_after_delta_excitation ::
  "sample \<Rightarrow> externals \<Rightarrow> real list \<Rightarrow> temp_arg \<Rightarrow> field list
     \<Rightarrow> error + nat \<times> field \<times> field list"
where
  "get_temperature_after_delta_excitation smp X fl init_temp store =
     (case get_absorption_profile smp X Default of
        Inl e \<Rightarrow> Inl e
      | Inr dalpha_dz \<Rightarrow>
          (case deposited_energy smp fl of
             Inl e \<Rightarrow> Inl e
           | Inr E0 \<Rightarrow>
               (case check_initial_temperature smp init_temp store of
                  Inl e \<Rightarrow> Inl e
                | Inr (ref, store1) \<Rightarrow>
                    (case solve_layers smp X dalpha_dz E0 ref
                            (enumerate 0 (int_heat_capacities smp)) store1 of
                       Inl e \<Rightarrow> Inl e
                     | Inr store2 \<Rightarrow>
                         Inr (ref, field_minus (store2 ! ref) (store2 ! ref), store2)))))"

section \<open>calc\_temp\_map\<close>

text \<open>\<open>np.diff(a, 0, 1)\<close> is the difference of order zero, the array itself, so
  \<open>temp_gradient\<close> is the sum of the absolute values of the last frame.\<close>

definition temp_gradient :: "field \<Rightarrow> real" where
  "temp_gradient f = sum_list (map (\<lambda>row. sum_list (map abs row)) f)"

definition is_diffusive :: "heat \<Rightarrow> interval \<Rightarrow> real \<Rightarrow> bool" where
  "is_diffusive h g tg \<longleftrightarrow>
     heat_diffusion h \<and> length (sub_delays g) > 2
     \<and> ((sum_list (grp_fluence g) = 0 \<and> tg \<noteq> 0)
        \<or> (sum_list (grp_fluence g) > 0 \<and> sum_list (grp_pulse_width g) > 0))"

definition is_delta :: "heat \<Rightarrow> interval \<Rightarrow> bool" where
  "is_delta h g \<longleftrightarrow>
     sum_list (grp_fluence g) > 0
     \<and> (\<not> heat_diffusion h \<or> (heat_diffusion h \<and> sum_list (grp_pulse_width g) = 0))"

text \<open>The first branch: the time grid is extended by the last time of the interval before
  and, when a delta excitation follows, by its first time; the integrator runs;
  \<open>temp[start:-1-stop]\<close> is kept and \<open>temp[-1]\<close> is the special initial temperature.\<close>

definition diffusive_temp ::
  "externals \<Rightarrow> interval list \<Rightarrow> nat \<Rightarrow> field \<Rightarrow> error + field list \<times> field option"
where
  "diffusive_temp X ce i init_temp =
     (let g = ce ! i;
          has_prev = (i > 0);
          next_delta = (i < length ce - 1 \<and> sum_list (grp_fluence (ce ! (i + 1))) > 0
                        \<and> sum_list (grp_pulse_width (ce ! (i + 1))) = 0)
      in if has_prev \<and> sub_delays (ce ! (i - 1)) = [] then Inl IndexError
         else if next_delta \<and> sub_delays (ce ! (i + 1)) = [] then Inl IndexError
         else
           (let start = (if has_prev then 1 else 0 :: nat);
                stop = (if next_delta then 1 else 0 :: nat);
                sub1 = (if has_prev then last (sub_delays (ce ! (i - 1))) # sub_delays g
                        else sub_delays g);
                sub2 = (if next_delta then sub1 @ [hd (sub_delays (ce ! (i + 1)))] else sub1)
            in case calc_heat_diffusion X init_temp sub2
                      (grp_delay_pump g) (grp_pulse_width g) (grp_fluence g) of
                 Inl e \<Rightarrow> Inl e
               | Inr temp \<Rightarrow>
                   if stop = 1 \<and> temp = [] then Inl IndexError
                   else Inr (drop start (take (length temp - (1 + stop)) temp),
                             if stop = 1 then Some (last temp) else None)))"

text \<open>\<open>np.reshape(init_temp, [1, N, K])\<close>: the entries in order, cut into \<open>N\<close> rows of
  \<open>K\<close>.\<close>

primrec rows_of :: "nat \<Rightarrow> nat \<Rightarrow> real list \<Rightarrow> field" where
  "rows_of K 0 xs = []"
| "rows_of K (Suc n) xs = take K xs # rows_of K n (drop K xs)"

definition reshape :: "nat \<Rightarrow> nat \<Rightarrow> field \<Rightarrow> error + field" where
  "reshape N K f =
     (if length (concat f) \<noteq> N * K then Inl ValueError else Inr (rows_of K N (concat f)))"

text \<open>The field \<open>temp\<close> of interval \<open>i\<close>, the special initial temperature and the store after
  the branch. \<open>temp_map\<close> holds the seed frame only, at address \<open>seed\<close>.\<close>

definition interval_temp ::
  "externals \<Rightarrow> heat \<Rightarrow> interval list \<Rightarrow> nat \<Rightarrow> nat \<Rightarrow> nat \<Rightarrow> field list
     \<Rightarrow> error + field list \<times> field option \<times> field list"
where
  "interval_temp X h ce seed i init_temp store =
     (let g = ce ! i
      in if is_diffusive h g (temp_gradient (store ! seed)) then
           (case diffusive_temp X ce i (store ! init_temp) of
              Inl e \<Rightarrow> Inl e
            | Inr (temp, special_init_temp) \<Rightarrow> Inr (temp, special_init_temp, store))
         else if is_delta h g then
           (case get_temperature_after_delta_excitation (S h) X (grp_fluence g)
                   (ArrayRef init_temp) store of
              Inl e \<Rightarrow> Inl e
            | Inr (final_temp, delta_T, store') \<Rightarrow>
                Inr ([map (map (\<lambda>t. 0)) (store' ! final_temp)], None, store'))
         else
           (case reshape (number_of_layers (S h)) (num_sub_systems (S h)) (store ! init_temp) of
              Inl e \<Rightarrow> Inl e
            | Inr f \<Rightarrow> Inr (replicate (length (sub_delays g)) f, None, store)))"

text \<open>The \<open>for\<close> loop over the checked excitation. The concatenation of \<open>temp\<close> to
  \<open>temp_map\<close> is commented out in the source, so \<open>temp\<close> is only printed:
  \<open>temp[:, 1, 0]\<close> and \<open>temp_map[:, 1, 0]\<close> need two layers and one sub-system. The next
  initial temperature is the special one when it has a row, else the view
  \<open>temp_map[-1]\<close> of the seed frame.\<close>

fun intervals_loop ::
  "externals \<Rightarrow> heat \<Rightarrow> interval list \<Rightarrow> nat \<Rightarrow> nat list \<Rightarrow> nat \<Rightarrow> field list
     \<Rightarrow> error + field list"
where
  "intervals_loop X h ce seed [] init_temp store = Inr store"
| "intervals_loop X h ce seed (i # rest) init_temp store =
     (case interval_temp X h ce seed i init_temp store of
        Inl e \<Rightarrow> Inl e
      | Inr (temp, special_init_temp, store') \<Rightarrow>
          if number_of_layers (S h) < 2 \<or> num_sub_systems (S h) < 1 then Inl IndexError
          else
            (case special_init_temp of
               None \<Rightarrow> intervals_loop X h ce seed rest seed store'
             | Some f \<Rightarrow>
                 if length f > 0
                 then intervals_loop X h ce seed rest (length store') (store' @ [f])
                 else intervals_loop X h ce seed rest seed store'))"

definition frame_diff :: "field list \<Rightarrow> field list" where
  "frame_diff frames = map2 field_minus (tl frames) (butlast frames)"

text \<open>The result: the temperature map without its first frame, the difference map, the
  checked excitation and the store.\<close>

definition calc_temp_map ::
  "externals \<Rightarrow> heat \<Rightarrow> real list \<Rightarrow> temp_arg \<Rightarrow> field list
     \<Rightarrow> error + field list \<times> field list \<times> interval list \<times> field list"
where
  "calc_temp_map X h delays init_temp store =
     (case check_initial_temperature (S h) init_temp store of
        Inl e \<Rightarrow> Inl e
      | Inr (init_ref, store1) \<Rightarrow>
          (case snd (snd (check_excitation X h delays)) of
             Inl e \<Rightarrow> Inl e
           | Inr (checked_excitation, fl, dp, pw) \<Rightarrow>
               (let seed = length store1;
                    store2 = store1 @ [store1 ! init_ref]
                in case intervals_loop X h checked_excitation seed
                          [0..<length checked_excitation] init_ref store2 of
                     Inl e \<Rightarrow> Inl e
                   | Inr store3 \<Rightarrow>
                       (let temp_map = [store3 ! seed]
                        in Inr (tl temp_map, frame_diff temp_map, checked_excitation, store3)))))"

section \<open>Reference definitions for the absorption profile\<close>

text \<open>The penetration depth the loop reads for layer \<open>i\<close>.\<close>

definition layer_depth :: "sample \<Rightarrow> externals \<Rightarrow> nat \<Rightarrow> pen_depth" where
  "layer_depth smp X i = opt_pen_depth smp (hd (finderb X (interfaces smp ! i) (d_start smp)))"

text \<open>Reference definition, in the words of the specification: the intensity carried into
  layer \<open>i\<close> starts at 1 and is multiplied by \<open>exp(-thickness/depth)\<close> after every layer
  of finite depth; a layer of infinite depth leaves it unchanged.\<close>

primrec carried_intensity :: "sample \<Rightarrow> externals \<Rightarrow> nat \<Rightarrow> real" where
  "carried_intensity smp X 0 = 1"
| "carried_intensity smp X (Suc i) =
     (case layer_depth smp X i of
        Infinite \<Rightarrow> carried_intensity smp X i
      | Finite depth \<Rightarrow>
          carried_intensity smp X i
            * exp (- (interfaces smp ! (i + 1) - interfaces smp ! i) / depth))"

text \<open>Reference definition: the derivative the specification gives for a mesh point \<open>z\<close> of
  layer \<open>i\<close>.\<close>

definition layer_value :: "sample \<Rightarrow> externals \<Rightarrow> nat \<Rightarrow> real \<Rightarrow> real" where
  "layer_value smp X i z =
     (case layer_depth smp X i of
        Infinite \<Rightarrow> 0
      | Finite depth \<Rightarrow>
          carried_intensity smp X i / depth * exp (- (z - interfaces smp ! i) / depth))"

text \<open>The mesh points taken by the first \<open>n\<close> layers, in the order the loop takes them,
  and the values the reference definition gives them.\<close>

definition selected :: "sample \<Rightarrow> real list \<Rightarrow> nat \<Rightarrow> real list" where
  "selected smp ds n = concat (map (\<lambda>i. filter (in_layer (interfaces smp) i) ds) [0..<n])"

definition profile_values :: "sample \<Rightarrow> externals \<Rightarrow> real list \<Rightarrow> nat \<Rightarrow> real list" where
  "profile_values smp X ds n =
     concat (map (\<lambda>i. map (layer_value smp X i) (filter (in_layer (interfaces smp) i) ds)) [0..<n])"

section \<open>Example inputs\<close>

text \<open>Instances of the external functions: the index of the last element of a sorted
  vector that is not above the key; a root finder that is exact on affine functions; an
  integrator that returns the initial field at every time point; the number of points
  \<open>ceil((b - a) / step)\<close>, which is what numpy counts where the division is exact in
  doubles; and a comparison of a quantity with \<open>[]\<close> that answers false. In \<open>X0_raising\<close>
  the comparison raises instead.\<close>

definition finderb_last :: "real \<Rightarrow> real list \<Rightarrow> nat list" where
  "finderb_last key vec = [length (filter (\<lambda>v. v \<le> key) vec) - 1]"

definition affine_root :: "(real \<Rightarrow> real) \<Rightarrow> real \<Rightarrow> real \<Rightarrow> error + real" where
  "affine_root f a b = Inr (a - f a / (f (a + 1) - f a))"

definition hold_diffusion ::
  "field \<Rightarrow> real list \<Rightarrow> real list \<Rightarrow> real list \<Rightarrow> real list \<Rightarrow> error + field list" where
  "hold_diffusion init_temp ts dp pw fl = Inr (map (\<lambda>t. init_temp) ts)"

definition X0 :: externals where
  "X0 = \<lparr>finderb = finderb_last,
          arange_len = (\<lambda>a b step. nat \<lceil>(b - a) / step\<rceil>),
          eq_empty_list = (\<lambda>ds. Inr False),
          brentq = affine_root, calc_heat_diffusion = hold_diffusion\<rparr>"

definition X0_raising :: externals where
  "X0_raising = X0\<lparr>eq_empty_list := (\<lambda>ds. Inl ValueError)\<rparr>"

definition two_layers :: sample where
  "two_layers =
     \<lparr>number_of_layers = 2, num_sub_systems = 1, d_start = [0, 1], d_mid = [1 / 2, 3 / 2],
      interfaces = [0, 1, 2], opt_pen_depth = (\<lambda>i. if i = 0 then Finite 1 else Infinite),
      int_heat_capacities = [[\<lambda>t. t], [\<lambda>t. t]], thicknesses = [1, 1], masses = [1, 1],
      areas = [1, 2]\<rparr>"

definition one_layer :: "pen_depth \<Rightarrow> sample" where
  "one_layer depth =
     \<lparr>number_of_layers = 1, num_sub_systems = 1, d_start = [0], d_mid = [1 / 2],
      interfaces = [0, 1], opt_pen_depth = (\<lambda>i. depth),
      int_heat_capacities = [[\<lambda>t. t]], thicknesses = [1], masses = [1], areas = [1]\<rparr>"

text \<open>A heat simulation on the two-layer sample with the given pump events.\<close>

definition heat_of :: "bool \<Rightarrow> real list \<Rightarrow> real list \<Rightarrow> real list \<Rightarrow> heat" where
  "heat_of diffusion fl dp pw =
     \<lparr>S = two_layers, heat_diffusion = diffusion,
      excitation = \<lparr>fluence = fl, delay_pump = dp, pulse_width = pw\<rparr>\<rparr>"

definition pulse_group :: "real list \<Rightarrow> real list \<Rightarrow> real list \<Rightarrow> real list \<Rightarrow> interval" where
  "pulse_group grid dp pw fl =
     \<lparr>sub_delays = grid, grp_delay_pump = dp, grp_pulse_width = pw, grp_fluence = fl\<rparr>"

text \<open>The checked excitation of one delta pulse of fluence 10 at delay 0.\<close>

definition delta_intervals :: "real list \<Rightarrow> real list \<Rightarrow> interval list" where
  "delta_intervals before after = [quiet before, pulse_group [0] [0] [0] [10], quiet after]"



section \<open>The excitation setter: results\<close>

lemma excitation_setter_dict_success:
  assumes "excitation_setter (Dict (Some f) (Some d) (Some w)) e = (e', None)"
  shows "fluence e' = f \<and> pulse_width e' = w \<and> delay_pump e' = sort d"
  using assms by (auto simp: assign_dict_def validate_excitation_def split: if_splits)

text \<open>
  Claim C5 says that a successful set reorders fluence, delay and pulse width by the one
  permutation that sorts the delays. The setter sorts \<open>delay_pump\<close> alone: for fluences
  \<open>[1, 2]\<close>, delays \<open>[5, 3]\<close> and widths \<open>[0, 1]\<close> the stored delays are \<open>[3, 5]\<close>
  while fluences and widths keep the given order, so the fluence 1 given with delay 5 is
  stored beside delay 3.
\<close>

theorem excitation_setter_sorts_delays_only:
  "excitation_setter (Dict (Some [1, 2]) (Some [5, 3]) (Some [0, 1]))
       \<lparr>fluence = [], delay_pump = [], pulse_width = []\<rparr>
     = (\<lparr>fluence = [1, 2], delay_pump = [3, 5], pulse_width = [0, 1]\<rparr>, None)"
  by (simp add: assign_dict_def validate_excitation_def)

section \<open>check\_excitation: results\<close>












lemmas check_excitation_unfold =
  check_excitation_def heat_of_def pulse_group_def delta_intervals_def local_pulse_width_def
  entry_warnings_def n_excitation_loop.simps group_end.simps make_interval_def intp_def
  window_def build_res_def Let_def two_layers_def

text \<open>
  Claim C6 says that the merge fails whenever any pulse of a group of two or more
  overlapping pulses has zero width. The loop tests only the pulse it adds to a group,
  never the pulse the group starts with: with heat diffusion on, delays \<open>[0, 1]\<close> and
  widths \<open>[0, 1]\<close> the second pulse reaches back over the first
  (\<open>0 + 1.5 * 0 \<ge> 1 - 1.5 * 1\<close>), the call returns, and the group holds both pulses,
  the first of zero width, on the single time point 0.
\<close>

theorem check_excitation_zero_width_first:
  "check_excitation X0 (heat_of True [1, 1] [0, 1] [0, 1]) [- 1, 2]
     = (heat_of True [1, 1] [0, 1] [0, 1], [],
        Inr ([quiet [- 1], pulse_group [0] [0, 1] [0, 1] [1, 1], quiet [2]],
             [1, 1], [0, 1], [0, 1]))"
  by (simp add: check_excitation_unfold)





text \<open>
  Claim C10: \<open>check_excitation\<close> leaves the object as it was. When heat diffusion is off
  and the stored widths have a positive sum, the warning is emitted and the returned widths
  are zeros, while the returned fluences and delays are the stored ones and the stored
  widths are still the nonzero ones.
\<close>

theorem check_excitation_frame:
  "check_excitation X h delays = (h', ws, r) \<Longrightarrow>
     h' = h
     \<and> (\<not> heat_diffusion h \<and> sum_list (pulse_width (excitation h)) > 0 \<longrightarrow>
          WarnPulseWidth \<in> set ws
          \<and> (\<forall>res fl dp pw. r = Inr (res, fl, dp, pw) \<longrightarrow>
                pw = replicate (length (fluence (excitation h))) 0
                \<and> fl = fluence (excitation h') \<and> dp = delay_pump (excitation h')
                \<and> pw \<noteq> pulse_width (excitation h')))"
proof -
  assume run: "check_excitation X h delays = (h', ws, r)"
  then have same: "h' = h"
    by (auto simp: check_excitation_def Let_def split: sum.splits prod.splits)
  have "WarnPulseWidth \<in> set ws"
    if "\<not> heat_diffusion h" and "sum_list (pulse_width (excitation h)) > 0"
    using run that
    by (auto simp: check_excitation_def entry_warnings_def Let_def split: sum.splits prod.splits)
  moreover have "pw = replicate (length (fluence (excitation h))) 0
      \<and> fl = fluence (excitation h') \<and> dp = delay_pump (excitation h')
      \<and> pw \<noteq> pulse_width (excitation h')"
    if off: "\<not> heat_diffusion h" and pos: "sum_list (pulse_width (excitation h)) > 0"
      and r: "r = Inr (res, fl, dp, pw)" for res fl dp pw
  proof -
    from run r off pos have "pw = replicate (length (fluence (excitation h))) 0"
      and "fl = fluence (excitation h)" and "dp = delay_pump (excitation h)"
      by (auto simp: check_excitation_def local_pulse_width_def Let_def
          split: sum.splits prod.splits)
    moreover have "sum_list (replicate n (0::real)) = 0" for n
      by (induction n) simp_all
    then have "replicate (length (fluence (excitation h))) 0 \<noteq> pulse_width (excitation h)"
      using pos by (metis less_irrefl)
    ultimately show ?thesis
      using same by simp
  qed
  ultimately show ?thesis
    using same by blast
qed

lemma check_excitation_no_diffusion:
  "check_excitation X0 (heat_of False [1] [0] [2]) [- 1, 1]
     = (heat_of False [1] [0] [2], [WarnPulseWidth],
        Inr ([quiet [- 1], pulse_group [0] [0] [0] [1], quiet [1]], [1], [0], [0]))"
  by (simp add: check_excitation_unfold)

theorem check_excitation_frame_witness:
  "check_excitation X0 (heat_of False [1] [0] [2]) [- 1, 1]
     = (heat_of False [1] [0] [2], [WarnPulseWidth],
        Inr ([quiet [- 1], pulse_group [0] [0] [0] [1], quiet [1]], [1], [0], [0]))
   \<and> \<not> heat_diffusion (heat_of False [1] [0] [2])
   \<and> sum_list (pulse_width (excitation (heat_of False [1] [0] [2]))) > 0
   \<and> pulse_width (excitation (heat_of False [1] [0] [2])) = [2]"
proof -
  have "\<not> heat_diffusion (heat_of False [1] [0] [2])"
    and "sum_list (pulse_width (excitation (heat_of False [1] [0] [2]))) > 0"
    and "pulse_width (excitation (heat_of False [1] [0] [2])) = [2]"
    by (simp_all add: heat_of_def)
  with check_excitation_no_diffusion check_excitation_frame [OF check_excitation_no_diffusion]
  show ?thesis by simp
qed

section \<open>get\_absorption\_profile: results\<close>

lemma selected_Suc:
  "selected smp ds (Suc n) = selected smp ds n @ filter (in_layer (interfaces smp) n) ds"
  by (simp add: selected_def)

lemma profile_values_Suc:
  "profile_values smp X ds (Suc n)
     = profile_values smp X ds n @ map (layer_value smp X n) (filter (in_layer (interfaces smp) n) ds)"
  by (simp add: profile_values_def)

lemma length_profile_values: "length (profile_values smp X ds n) = length (selected smp ds n)"
  by (induction n) (simp_all add: selected_Suc profile_values_Suc, simp add: selected_def profile_values_def)

lemma absorb_layers_append:
  "absorb_layers smp X ds (xs @ ys) st =
     (case absorb_layers smp X ds xs st of Inl e \<Rightarrow> Inl e | Inr st' \<Rightarrow> absorb_layers smp X ds ys st')"
  by (induction xs arbitrary: st) (auto split: sum.splits)

lemma sorted_filter_split:
  fixes ds :: "real list"
  assumes "sorted ds" and "\<And>z. z \<in> set ds \<Longrightarrow> z < a \<Longrightarrow> Q z"
  shows "filter (\<lambda>z. z < a) ds @ filter (\<lambda>z. a \<le> z \<and> Q z) ds = filter Q ds"
  using assms
proof (induction ds)
  case Nil
  then show ?case by simp
next
  case (Cons x xs)
  show ?case
  proof (cases "x < a")
    case True
    with Cons show ?thesis by auto
  next
    case False
    with Cons.prems(1) have all: "\<forall>y \<in> set (x # xs). a \<le> y"
      by auto
    then have "filter (\<lambda>z. z < a) (x # xs) = []"
      by (auto simp: filter_empty_conv)
    moreover from all have "filter (\<lambda>z. a \<le> z \<and> Q z) (x # xs) = filter Q (x # xs)"
      by (intro filter_cong) auto
    ultimately show ?thesis by simp
  qed
qed


lemma selected_before_last:
  assumes "sorted ds" and "sorted (interfaces smp)"
    and "\<And>z. z \<in> set ds \<Longrightarrow> interfaces smp ! 0 \<le> z"
    and "n < length (interfaces smp) - 1"
  shows "selected smp ds n = filter (\<lambda>z. z < interfaces smp ! n) ds"
  using assms(4)
proof (induction n)
  case 0
  have "filter (\<lambda>z. z < interfaces smp ! 0) ds = []"
    by (simp add: filter_empty_conv not_less assms(3))
  then show ?case by (simp add: selected_def)
next
  case (Suc n)
  then have n: "n < length (interfaces smp) - 2"
    by simp
  then have lay: "in_layer (interfaces smp) n
      = (\<lambda>z. interfaces smp ! n \<le> z \<and> z < interfaces smp ! (Suc n))"
    by (auto simp: in_layer_def fun_eq_iff)
  from n assms(2) have le: "interfaces smp ! n \<le> interfaces smp ! (Suc n)"
    by (simp add: sorted_iff_nth_mono)
  from Suc have "selected smp ds n = filter (\<lambda>z. z < interfaces smp ! n) ds"
    by simp
  then have "selected smp ds (Suc n)
      = filter (\<lambda>z. z < interfaces smp ! n) ds
        @ filter (\<lambda>z. interfaces smp ! n \<le> z \<and> z < interfaces smp ! (Suc n)) ds"
    by (simp add: selected_Suc lay)
  also have "\<dots> = filter (\<lambda>z. z < interfaces smp ! (Suc n)) ds"
    using le by (intro sorted_filter_split [OF assms(1)]) simp
  finally show ?case .
qed

lemma sorted_filter_le_split:
  fixes ds :: "real list"
  assumes "sorted ds"
  shows "filter (\<lambda>z. z \<le> c) ds @ filter (\<lambda>z. c < z) ds = ds"
  using assms
proof (induction ds)
  case Nil
  then show ?case by simp
next
  case (Cons x xs)
  show ?case
  proof (cases "x \<le> c")
    case True
    with Cons show ?thesis by auto
  next
    case False
    with Cons.prems have all: "\<forall>y \<in> set (x # xs). c < y"
      by auto
    then have "filter (\<lambda>z. z \<le> c) (x # xs) = []"
      by (auto simp: filter_empty_conv)
    moreover from all have "filter (\<lambda>z. c < z) (x # xs) = x # xs"
      by (simp add: filter_id_conv)
    ultimately show ?thesis by simp
  qed
qed

lemma sorted_filter_le_nth:
  fixes ds :: "real list"
  assumes "sorted ds" and "j < length ds" and "ds ! j \<le> c"
  shows "j < length (filter (\<lambda>z. z \<le> c) ds) \<and> filter (\<lambda>z. z \<le> c) ds ! j = ds ! j"
proof -
  let ?lo = "filter (\<lambda>z. z \<le> c) ds" and ?hi = "filter (\<lambda>z. c < z) ds"
  have split: "?lo @ ?hi = ds"
    by (rule sorted_filter_le_split [OF assms(1)])
  have "j < length ?lo"
  proof (rule ccontr)
    assume "\<not> j < length ?lo"
    with assms(2) split have "ds ! j = ?hi ! (j - length ?lo)" and "j - length ?lo < length ?hi"
      by (metis nth_append, metis length_append less_diff_conv2 not_less add.commute)
    then have "ds ! j \<in> set ?hi"
      by (metis nth_mem)
    with assms(3) show False by simp
  qed
  moreover from this split have "?lo ! j = ds ! j"
    by (metis nth_append)
  ultimately show ?thesis by simp
qed

lemma selected_last:
  assumes "sorted ds" and "sorted (interfaces smp)"
    and "\<And>z. z \<in> set ds \<Longrightarrow> interfaces smp ! 0 \<le> z"
    and "2 \<le> length (interfaces smp)"
  shows "selected smp ds (length (interfaces smp) - 1)
           = filter (\<lambda>z. z \<le> last (interfaces smp)) ds"
proof -
  define n where "n = length (interfaces smp) - 2"
  have len: "length (interfaces smp) - 1 = Suc n" and n: "n < length (interfaces smp) - 1"
    using assms(4) by (simp_all add: n_def)
  have lst: "last (interfaces smp) = interfaces smp ! (Suc n)"
    using assms(4) len by (metis last_conv_nth length_0_conv not_numeral_le_zero)
  have lay: "in_layer (interfaces smp) n
      = (\<lambda>z. interfaces smp ! n \<le> z \<and> z \<le> interfaces smp ! (Suc n))"
    by (auto simp: in_layer_def fun_eq_iff n_def)
  from n assms(2,4) have le: "interfaces smp ! n \<le> interfaces smp ! (Suc n)"
    by (simp add: sorted_iff_nth_mono n_def)
  have "selected smp ds (Suc n)
      = filter (\<lambda>z. z < interfaces smp ! n) ds
        @ filter (\<lambda>z. interfaces smp ! n \<le> z \<and> z \<le> interfaces smp ! (Suc n)) ds"
    by (simp add: selected_Suc lay selected_before_last [OF assms(1-3) n])
  also have "\<dots> = filter (\<lambda>z. z \<le> interfaces smp ! (Suc n)) ds"
    using le by (intro sorted_filter_split [OF assms(1)]) simp
  finally show ?thesis
    unfolding len lst .
qed

lemma length_selected_le:
  assumes "sorted ds" and "sorted (interfaces smp)"
    and "\<And>z. z \<in> set ds \<Longrightarrow> interfaces smp ! 0 \<le> z"
    and "n \<le> length (interfaces smp) - 1"
  shows "length (selected smp ds n) \<le> length ds"
proof (cases "n < length (interfaces smp) - 1")
  case True
  from selected_before_last [OF assms(1-3) True] show ?thesis by simp
next
  case False
  with assms(4) have n: "n = length (interfaces smp) - 1" by simp
  show ?thesis
  proof (cases "2 \<le> length (interfaces smp)")
    case True
    from selected_last [OF assms(1-3) True] n show ?thesis by simp
  next
    case False
    with n have "n = 0" by simp
    then show ?thesis by (simp add: selected_def)
  qed
qed

lemma slice_assign_fits:
  assumes "length pv = k" and "k + length vals \<le> k + r"
  shows "slice_assign (pv @ replicate r 0) k vals = Inr (pv @ vals @ replicate (r - length vals) 0)"
proof -
  from assms have "min (k + r) (k + length vals) - min (k + r) k = length vals"
    by simp
  with assms show ?thesis
    by (simp add: slice_assign_def Let_def)
qed

lemma absorb_layers_invariant:
  assumes "\<And>m. m \<le> n \<Longrightarrow> length (selected smp ds m) \<le> length ds"
    and "absorb_layers smp X ds [0..<n] (replicate (length ds) 0, 1, 0) = Inr st"
  shows "st = (profile_values smp X ds n @ replicate (length ds - length (selected smp ds n)) 0,
               carried_intensity smp X n, length (selected smp ds n))"
  using assms
proof (induction n arbitrary: st)
  case 0
  then show ?case by (simp add: selected_def profile_values_def)
next
  case (Suc n)
  from Suc.prems(2) obtain st' where
    run: "absorb_layers smp X ds [0..<n] (replicate (length ds) 0, 1, 0) = Inr st'" and
    step: "layer_step smp X ds n st' = Inr st"
    by (auto simp: absorb_layers_append split: sum.splits)
  let ?k = "length (selected smp ds n)"
  let ?z = "filter (in_layer (interfaces smp) n) ds"
  have st': "st' = (profile_values smp X ds n @ replicate (length ds - ?k) 0,
                    carried_intensity smp X n, ?k)"
    using Suc.IH [OF _ run] Suc.prems(1) by simp
  from Suc.prems(1) [of "Suc n"] have fit: "?k + length ?z \<le> length ds"
    by (simp add: selected_Suc)
  from step st' obtain index0 rest where
    fb: "finderb X (interfaces smp ! n) (d_start smp) = index0 # rest"
    by (auto simp: layer_step_def split: list.splits)
  then have depth: "layer_depth smp X n = opt_pen_depth smp index0"
    by (simp add: layer_depth_def)
  show ?case
  proof (cases "opt_pen_depth smp index0")
    case Infinite
    with depth have "layer_value smp X n = (\<lambda>z. 0)"
      by (simp add: layer_value_def fun_eq_iff)
    then have "map (layer_value smp X n) ?z = replicate (length ?z) 0"
      by (simp add: map_replicate_const)
    moreover from fit
    have "replicate (length ds - ?k) (0::real)
        = replicate (length ?z) 0 @ replicate (length ds - (?k + length ?z)) 0"
      by (simp add: replicate_add [symmetric])
    ultimately show ?thesis
      using step st' fb Infinite depth
      by (simp add: layer_step_def Let_def selected_Suc profile_values_Suc)
  next
    case (Finite d)
    let ?vals = "map (\<lambda>x. carried_intensity smp X n / d * exp (- (x - interfaces smp ! n) / d)) ?z"
    from step st' fb Finite have nz: "d \<noteq> 0"
      by (auto simp: layer_step_def Let_def split: if_splits)
    have vals: "layer_value smp X n
        = (\<lambda>x. carried_intensity smp X n / d * exp (- (x - interfaces smp ! n) / d))"
      using depth Finite by (simp add: layer_value_def fun_eq_iff)
    have "slice_assign (profile_values smp X ds n @ replicate (length ds - ?k) 0) ?k ?vals
        = Inr (profile_values smp X ds n @ ?vals @ replicate (length ds - ?k - length ?vals) 0)"
      using fit by (intro slice_assign_fits) (simp_all add: length_profile_values)
    with step st' fb Finite nz depth vals show ?thesis
      by (simp add: layer_step_def Let_def selected_Suc profile_values_Suc)
  qed
qed

lemma profile_values_pointwise:
  "list_all2 (\<lambda>z v. \<exists>i<n. in_layer (interfaces smp) i z \<and> v = layer_value smp X i z)
     (selected smp ds n) (profile_values smp X ds n)"
proof (induction n)
  case 0
  then show ?case by (simp add: selected_def profile_values_def)
next
  case (Suc n)
  have "list_all2 (\<lambda>z v. \<exists>i<Suc n. in_layer (interfaces smp) i z \<and> v = layer_value smp X i z)
          (selected smp ds n) (profile_values smp X ds n)"
    by (rule list_all2_mono [OF Suc]) (auto intro: less_SucI)
  moreover
  have "list_all2 (\<lambda>z v. \<exists>i<Suc n. in_layer (interfaces smp) i z \<and> v = layer_value smp X i z)
          (filter (in_layer (interfaces smp) n) ds)
          (map (layer_value smp X n) (filter (in_layer (interfaces smp) n) ds))"
    by (auto simp: list_all2_map2 list_all2_same)
  ultimately show ?case
    by (simp add: selected_Suc profile_values_Suc list_all2_appendI)
qed

lemma in_layer_unique:
  assumes "sorted ifs" and "i < length ifs - 1" and "i' < length ifs - 1"
    and "in_layer ifs i z" and "in_layer ifs i' z"
  shows "i = i'"
proof -
  have False if lt: "a < b" and b: "b < length ifs - 1"
    and ia: "in_layer ifs a z" and ib: "in_layer ifs b z" for a b
  proof -
    from lt b have "a < length ifs - 2" by simp
    with ia have "z < ifs ! (a + 1)"
      by (simp add: in_layer_def)
    moreover from lt b assms(1) have "ifs ! (a + 1) \<le> ifs ! b"
      by (simp add: sorted_iff_nth_mono)
    moreover from ib have "ifs ! b \<le> z"
      by (simp add: in_layer_def split: if_splits)
    ultimately show False by simp
  qed
  from this [of i i'] this [of i' i] assms(2-5) show ?thesis
    by (cases i i' rule: linorder_cases) auto
qed

lemma slice_assign_length: "slice_assign a k vals = Inr a' \<Longrightarrow> length a' = length a"
  by (auto simp: slice_assign_def Let_def split: if_splits)

lemma layer_step_length:
  "layer_step smp X ds i (a, I0, k) = Inr (a', I0', k') \<Longrightarrow> length a' = length a"
  by (auto simp: layer_step_def Let_def split: list.splits pen_depth.splits if_splits sum.splits
      dest: slice_assign_length)

lemma absorb_layers_length:
  "absorb_layers smp X ds layers (a, I0, k) = Inr (a', I0', k') \<Longrightarrow> length a' = length a"
proof (induction layers arbitrary: a I0 k)
  case Nil
  then show ?case by simp
next
  case (Cons i layers)
  then obtain a1 I1 k1 where step: "layer_step smp X ds i (a, I0, k) = Inr (a1, I1, k1)"
    and rest: "absorb_layers smp X ds layers (a1, I1, k1) = Inr (a', I0', k')"
    by (auto split: sum.splits)
  from Cons.IH [OF rest] layer_step_length [OF step] show ?case by simp
qed

lemma absorption_profile_sorted_mesh:
  assumes "sorted ds" and "sorted (interfaces smp)" and "2 \<le> length (interfaces smp)"
    and "\<forall>z \<in> set ds. interfaces smp ! 0 \<le> z"
    and run: "absorb_layers smp X ds [0..<length (interfaces smp) - 1]
                (replicate (length ds) 0, 1, 0) = Inr (prof, I0, k)"
    and j: "j < length ds" and i: "i < length (interfaces smp) - 1"
    and lay: "in_layer (interfaces smp) i (ds ! j)"
  shows "prof ! j = layer_value smp X i (ds ! j)"
proof -
  let ?n = "length (interfaces smp) - 1"
  let ?sel = "selected smp ds ?n"
  from assms(4) have lo: "\<And>z. z \<in> set ds \<Longrightarrow> interfaces smp ! 0 \<le> z"
    by auto
  have sel: "?sel = filter (\<lambda>z. z \<le> last (interfaces smp)) ds"
    by (rule selected_last [OF assms(1,2) lo assms(3)])
  have "(prof, I0, k)
      = (profile_values smp X ds ?n @ replicate (length ds - length ?sel) 0,
         carried_intensity smp X ?n, length ?sel)"
    by (rule absorb_layers_invariant [OF length_selected_le [OF assms(1,2) lo] run])
  then have prof: "prof = profile_values smp X ds ?n @ replicate (length ds - length ?sel) 0"
    by simp
  have "last (interfaces smp) = interfaces smp ! ?n"
    using assms(3) by (metis last_conv_nth length_0_conv not_numeral_le_zero)
  moreover from i assms(2,3) have "interfaces smp ! (i + 1) \<le> interfaces smp ! ?n"
    by (simp add: sorted_iff_nth_mono)
  moreover from lay have "ds ! j \<le> interfaces smp ! (i + 1)"
    by (simp add: in_layer_def split: if_splits)
  ultimately have "ds ! j \<le> last (interfaces smp)"
    by simp
  from sorted_filter_le_nth [OF assms(1) j this] sel
  have jsel: "j < length ?sel" and same: "?sel ! j = ds ! j"
    by simp_all
  from profile_values_pointwise [where n = ?n and smp = smp and ds = ds and X = X] jsel
  obtain i' where i': "i' < ?n" "in_layer (interfaces smp) i' (?sel ! j)"
    and v: "profile_values smp X ds ?n ! j = layer_value smp X i' (?sel ! j)"
    by (auto simp: list_all2_conv_all_nth)
  from in_layer_unique [OF assms(2) i i'(1) lay] i'(2) same have "i = i'"
    by simp
  with v same jsel prof show ?thesis
    by (simp add: nth_append length_profile_values)
qed

lemma upt2: "[0..<2] = [0, 1]"
  by (simp add: upt_rec)

lemmas absorption_unfold =
  get_absorption_profile_def mesh_of_def two_layers_def one_layer_def X0_def X0_raising_def
  finderb_last_def layer_step_def slice_assign_def in_layer_def Let_def upt2

lemma profile_two_layers:
  "get_absorption_profile two_layers X0 Default = Inr [exp (- (1 / 2)), 0]"
  by (simp add: absorption_unfold)

lemma profile_unsorted:
  "get_absorption_profile two_layers X0 (Mesh [3 / 2, 1 / 2]) = Inr [exp (- (1 / 2)), 0]"
  by (simp add: absorption_unfold)

lemma profile_raising:
  "get_absorption_profile two_layers X0_raising (Mesh [3 / 2, 1 / 2]) = Inl ValueError"
  by (simp add: absorption_unfold)

lemma profile_one_infinite:
  "get_absorption_profile (one_layer Infinite) X0 Default = Inr [0]"
  by (simp add: absorption_unfold)

lemma profile_one_finite:
  "get_absorption_profile (one_layer (Finite 2)) X0 Default = Inr [exp (- (1 / 4)) / 2]"
  by (simp add: absorption_unfold)

lemma single_infinite_layer:
  assumes "interfaces smp = [a, b]" and "layer_depth smp X 0 = Infinite"
    and "absorb_layers smp X ds [0..<length (interfaces smp) - 1]
           (replicate (length ds) 0, 1, 0) = Inr (prof, I0, k)"
  shows "prof = replicate (length ds) 0"
  using assms(2,3) unfolding assms(1)
  by (auto simp: layer_step_def layer_depth_def Let_def assms(1)
      split: list.splits pen_depth.splits sum.splits)

lemma slice_assign_whole:
  "length vals = n \<Longrightarrow> slice_assign (replicate n 0) 0 vals = Inr vals"
  by (simp add: slice_assign_def Let_def)

lemma single_finite_layer:
  assumes "interfaces smp = [0, b]" and "layer_depth smp X 0 = Finite d"
    and "\<forall>z \<in> set ds. 0 \<le> z \<and> z \<le> b"
    and "absorb_layers smp X ds [0..<length (interfaces smp) - 1]
           (replicate (length ds) 0, 1, 0) = Inr (prof, I0, k)"
  shows "prof = map (\<lambda>z. exp (- z / d) / d) ds"
proof -
  have "in_layer [0, b] 0 z" if "z \<in> set ds" for z
    using that assms(3) by (simp add: in_layer_def)
  then have sel: "filter (in_layer [0, b] 0) ds = ds"
    by (simp add: filter_id_conv)
  from assms(2,4) show ?thesis
    unfolding assms(1)
    by (auto simp: layer_step_def layer_depth_def Let_def sel slice_assign_whole assms(1)
        split: list.splits pen_depth.splits if_splits sum.splits)
qed

text \<open>
  Claim C8, as stated for every distance mesh, fails on the two-layer stack with interfaces
  \<open>[0, 1, 2]\<close>, first layer of depth 1, and the mesh \<open>[3/2, 1/2]\<close>, whatever the test
  \<open>distances == []\<close> does with the quantity. Where it answers false, the values of a
  layer are written to the next free positions of the profile, not to the positions of
  their mesh points: the mesh point \<open>1/2\<close> lies in the first layer, but its entry of the
  profile is 0, not \<open>1/1 * exp(-(1/2 - 0)/1)\<close>. Where it raises, the call returns no
  profile at all.
\<close>

theorem get_absorption_profile_unsorted_mesh:
  "get_absorption_profile two_layers X0 (Mesh [3 / 2, 1 / 2]) = Inr [exp (- (1 / 2)), 0]
   \<and> [3 / 2, 1 / 2 :: real] ! 1 = 1 / 2
   \<and> in_layer (interfaces two_layers) 0 (1 / 2)
   \<and> layer_depth two_layers X0 0 = Finite 1
   \<and> [exp (- (1 / 2)), 0] ! 1
       \<noteq> carried_intensity two_layers X0 0 / 1 * exp (- (1 / 2 - interfaces two_layers ! 0) / 1)
   \<and> get_absorption_profile two_layers X0_raising (Mesh [3 / 2, 1 / 2]) = Inl ValueError"
  by (simp add: profile_unsorted profile_raising)
     (simp add: two_layers_def in_layer_def layer_depth_def X0_def finderb_last_def)

lemma profile_has_mesh:
  "get_absorption_profile smp X distances = Inr prof \<Longrightarrow> \<exists>ds. mesh_of smp X distances = Inr ds"
  by (auto simp: get_absorption_profile_def split: sum.splits)

text \<open>
  Claim C8, amended: whenever \<open>get_absorption_profile\<close> returns a profile, it has one
  value per point of the mesh \<open>ds\<close> it worked on (the layer midpoints by default), and
  (1) if the mesh is ascending and not below the first interface, and the interfaces are
  ascending, the value at a mesh point \<open>z\<close> of layer \<open>i\<close> is
  \<open>I0/depth * exp(-(z - interface_i)/depth)\<close> for a finite depth and 0 for an infinite
  one, \<open>I0\<close> being the carried intensity (1 at the start, multiplied by
  \<open>exp(-thickness/depth)\<close> after each layer of finite depth, unchanged by a layer of
  infinite depth);
  (2) a single layer of infinite depth gives the all-zero profile, on any mesh;
  (3) a single layer of finite depth \<open>d\<close> between 0 and \<open>b\<close> gives \<open>exp(-z/d)/d\<close>
  at every point \<open>z\<close> of a mesh that lies in \<open>[0, b]\<close>.
\<close>

theorem get_absorption_profile_layers:
  assumes "get_absorption_profile smp X distances = Inr prof"
    and "mesh_of smp X distances = Inr ds"
  shows "length prof = length ds
    \<and> (sorted ds \<and> sorted (interfaces smp) \<and> 2 \<le> length (interfaces smp)
        \<and> (\<forall>z \<in> set ds. interfaces smp ! 0 \<le> z)
        \<longrightarrow> (\<forall>j < length ds. \<forall>i < length (interfaces smp) - 1.
               in_layer (interfaces smp) i (ds ! j) \<longrightarrow>
               prof ! j =
                 (case layer_depth smp X i of
                    Infinite \<Rightarrow> 0
                  | Finite depth \<Rightarrow>
                      carried_intensity smp X i / depth
                        * exp (- (ds ! j - interfaces smp ! i) / depth))))
    \<and> (\<forall>a b. interfaces smp = [a, b] \<and> layer_depth smp X 0 = Infinite
          \<longrightarrow> prof = replicate (length ds) 0)
    \<and> (\<forall>b d. interfaces smp = [0, b] \<and> layer_depth smp X 0 = Finite d
                \<and> (\<forall>z \<in> set ds. 0 \<le> z \<and> z \<le> b)
          \<longrightarrow> prof = map (\<lambda>z. exp (- z / d) / d) ds)"
proof -
  from assms obtain I0 k where
    run: "absorb_layers smp X ds [0..<length (interfaces smp) - 1]
            (replicate (length ds) 0, 1, 0) = Inr (prof, I0, k)"
    by (auto simp: get_absorption_profile_def split: sum.splits)
  from absorb_layers_length [OF run] have len: "length prof = length ds"
    by simp
  from absorption_profile_sorted_mesh [OF _ _ _ _ run]
    single_infinite_layer [OF _ _ run] single_finite_layer [OF _ _ _ run] len
  show ?thesis
    unfolding layer_value_def by blast
qed

theorem get_absorption_profile_layers_witness:
  "get_absorption_profile two_layers X0 Default = Inr [exp (- (1 / 2)), 0]
   \<and> mesh_of two_layers X0 Default = Inr [1 / 2, 3 / 2]
   \<and> interfaces two_layers = [0, 1, 2]
   \<and> in_layer (interfaces two_layers) 0 (1 / 2)
   \<and> layer_depth two_layers X0 0 = Finite 1
   \<and> [exp (- (1 / 2)), 0] ! 0
       = carried_intensity two_layers X0 0 / 1 * exp (- (1 / 2 - interfaces two_layers ! 0) / 1)
   \<and> get_absorption_profile (one_layer Infinite) X0 Default = Inr (replicate (length [1 / 2 :: real]) 0)
   \<and> mesh_of (one_layer Infinite) X0 Default = Inr [1 / 2]
   \<and> interfaces (one_layer Infinite) = [0, 1]
   \<and> layer_depth (one_layer Infinite) X0 0 = Infinite
   \<and> get_absorption_profile (one_layer (Finite 2)) X0 Default
       = Inr (map (\<lambda>z. exp (- z / 2) / 2) [1 / 2])
   \<and> mesh_of (one_layer (Finite 2)) X0 Default = Inr [1 / 2]
   \<and> interfaces (one_layer (Finite 2)) = [0, 1]
   \<and> layer_depth (one_layer (Finite 2)) X0 0 = Finite 2"
proof -
  have m: "mesh_of two_layers X0 Default = Inr [1 / 2, 3 / 2]"
    "mesh_of (one_layer Infinite) X0 Default = Inr [1 / 2]"
    "mesh_of (one_layer (Finite 2)) X0 Default = Inr [1 / 2]"
    by (simp_all add: mesh_of_def two_layers_def one_layer_def)
  have f: "interfaces two_layers = [0, 1, 2]" "in_layer (interfaces two_layers) 0 (1 / 2)"
    "layer_depth two_layers X0 0 = Finite 1"
    "interfaces (one_layer Infinite) = [0, 1]" "layer_depth (one_layer Infinite) X0 0 = Infinite"
    "interfaces (one_layer (Finite 2)) = [0, 1]"
    "layer_depth (one_layer (Finite 2)) X0 0 = Finite 2"
    by (simp_all add: two_layers_def one_layer_def in_layer_def layer_depth_def X0_def
        finderb_last_def)
  have h1: "sorted [1 / 2, 3 / 2 :: real] \<and> sorted (interfaces two_layers)
      \<and> 2 \<le> length (interfaces two_layers)
      \<and> (\<forall>z \<in> set [1 / 2, 3 / 2]. interfaces two_layers ! 0 \<le> z)"
    by (simp add: two_layers_def)
  have h3: "interfaces (one_layer (Finite 2)) = [0, 1]
      \<and> layer_depth (one_layer (Finite 2)) X0 0 = Finite 2
      \<and> (\<forall>z \<in> set [1 / 2 :: real]. 0 \<le> z \<and> z \<le> 1)"
    using f by simp
  have n0: "(0::nat) < length [1 / 2, 3 / 2 :: real]" "0 < length (interfaces two_layers) - 1"
    "in_layer (interfaces two_layers) 0 ([1 / 2, 3 / 2] ! 0)"
    using f by simp_all
  have h2: "interfaces (one_layer Infinite) = [0, 1]
      \<and> layer_depth (one_layer Infinite) X0 0 = Infinite"
    using f by simp
  note general = get_absorption_profile_layers [OF profile_two_layers m(1), THEN conjunct2,
      THEN conjunct1, THEN mp, OF h1, rule_format, OF n0]
  note inf = get_absorption_profile_layers [OF profile_one_infinite m(2), THEN conjunct2,
      THEN conjunct2, THEN conjunct1, rule_format, OF h2]
  note fin = get_absorption_profile_layers [OF profile_one_finite m(3), THEN conjunct2,
      THEN conjunct2, THEN conjunct2, rule_format, OF h3]
  from general f(3)
  have c1: "[exp (- (1 / 2)), 0] ! 0
       = carried_intensity two_layers X0 0 / 1 * exp (- (1 / 2 - interfaces two_layers ! 0) / 1)"
    by simp
  from inf profile_one_infinite
  have c2: "get_absorption_profile (one_layer Infinite) X0 Default
       = Inr (replicate (length [1 / 2 :: real]) 0)"
    by simp
  from fin profile_one_finite
  have c3: "get_absorption_profile (one_layer (Finite 2)) X0 Default
       = Inr (map (\<lambda>z. exp (- z / 2) / 2) [1 / 2])"
    by simp
  from profile_two_layers m f c1 c2 c3 show ?thesis
    by blast
qed

section \<open>get\_temperature\_after\_delta\_excitation: results\<close>

lemma map2_minus_self: "map2 (-) r r = map (\<lambda>t. 0) (r :: real list)"
  by (induction r) simp_all

lemma field_minus_self: "field_minus f f = map (map (\<lambda>t. 0)) f"
  by (induction f) (simp_all add: field_minus_def map2_minus_self)

text \<open>Whatever the input, the returned temperature change is zero in every entry:
  it is the difference of one array with itself.\<close>

lemma delta_T_all_zero:
  assumes "get_temperature_after_delta_excitation smp X fl init_temp store
             = Inr (final_temp, delta_T, store')"
  shows "delta_T = map (map (\<lambda>t. 0)) (store' ! final_temp)"
  using assms
  by (auto simp: get_temperature_after_delta_excitation_def field_minus_self split: sum.splits)

text \<open>A layer whose absorption derivative is not positive keeps its row of the array.\<close>

lemma solve_layers_keeps_rows:
  assumes "solve_layers smp X dalpha_dz E0 ref layers store = Inr store'"
    and "\<not> dalpha_dz ! i > 0"
  shows "store' ! ref ! i = store ! ref ! i"
  using assms
proof (induction layers arbitrary: store)
  case Nil
  then show ?case by simp
next
  case (Cons l layers)
  obtain j c where l: "l = (j, c)" by (cases l)
  show ?case
  proof (cases "dalpha_dz ! j > 0")
    case False
    with Cons.prems l have "solve_layers smp X dalpha_dz E0 ref layers store = Inr store'"
      by (simp split: if_splits)
    from Cons.IH [OF this Cons.prems(2)] show ?thesis .
  next
    case True
    with Cons.prems(2) have ne: "i \<noteq> j" by auto
    from Cons.prems(1) l True obtain t2 where
      "solve_layers smp X dalpha_dz E0 ref layers
         (store[ref := (store ! ref)[j := replicate (length (store ! ref ! j)) t2]]) = Inr store'"
      by (auto split: if_splits sum.splits)
    from Cons.IH [OF this Cons.prems(2)]
    have "store' ! ref ! i
        = store[ref := (store ! ref)[j := replicate (length (store ! ref ! j)) t2]] ! ref ! i" .
    also have "\<dots> = store ! ref ! i"
      using ne by (cases "ref < length store") (simp_all add: list_update_beyond)
    finally show ?thesis .
  qed
qed

lemma delta_excitation_keeps_layers_without_absorption:
  assumes "get_temperature_after_delta_excitation smp X fl init_temp store
             = Inr (final_temp, delta_T, store')"
  shows "\<exists>dalpha_dz init_ref store1.
           get_absorption_profile smp X Default = Inr dalpha_dz
           \<and> check_initial_temperature smp init_temp store = Inr (init_ref, store1)
           \<and> final_temp = init_ref
           \<and> (\<forall>i. \<not> dalpha_dz ! i > 0 \<longrightarrow> store' ! final_temp ! i = store1 ! init_ref ! i)"
  using assms
  by (auto simp: get_temperature_after_delta_excitation_def split: sum.splits
      dest: solve_layers_keeps_rows)

lemma energy_two_layers: "deposited_energy two_layers [10] = Inr [20]"
  by (simp add: deposited_energy_def two_layers_def)

lemmas delta_unfold =
  two_layers_def X0_def affine_root_def absorbed_energy_def as_scalar_def field_minus_def
  enumerate_eq_zip upt2 numeral_2_eq_2

lemma delta_two_layers_ref:
  "get_temperature_after_delta_excitation two_layers X0 [10] (ArrayRef 1)
       [[[300], [300]], [[300], [300]]]
     = Inr (1, [[0], [0]], [[[300], [300]], [[300 + 20 * exp (- (1 / 2))], [300]]])"
  by (simp add: get_temperature_after_delta_excitation_def profile_two_layers energy_two_layers
      check_initial_temperature_def Let_def)
     (simp add: delta_unfold)

text \<open>
  Claim C2 says that the returned \<open>delta_T\<close> is the final temperature minus the given
  initial temperature. \<open>final_temp = init_temp\<close> makes both names one array, so the
  root is written into the initial temperature too and \<open>final_temp - init_temp\<close> is
  zero. On the two-layer sample (first layer absorbing, heat capacity integral \<open>C(T) = T\<close>,
  unit masses), fluence 10 and initial temperature 300: the first layer ends at
  \<open>300 + 20 * exp(-1/2)\<close>, and the returned change of that layer is 0.
\<close>

theorem delta_excitation_delta_T_zero:
  "get_temperature_after_delta_excitation two_layers X0 [10] (Scalar 300) []
     = Inr (0, [[0], [0]], [[[300 + 20 * exp (- (1 / 2))], [300]]])
   \<and> (300 + 20 * exp (- (1 / 2)) :: real) - 300 \<noteq> 0"
  by (simp add: get_temperature_after_delta_excitation_def profile_two_layers energy_two_layers
      check_initial_temperature_def Let_def)
     (simp add: delta_unfold)

text \<open>
  Claim C3 says that the deposited energy \<open>E0\<close> is the fluence times the area of the first
  layer. The code multiplies by \<open>areas[1]\<close>, the area of the second layer: with areas
  \<open>[1, 2]\<close> and fluence 10 it computes 20, not 10, and on a stack of one layer the index
  is out of range.
\<close>

theorem deposited_energy_uses_second_area:
  "deposited_energy two_layers [10] = Inr [20]
   \<and> areas two_layers = [1, 2]
   \<and> deposited_energy (one_layer (Finite 1)) [10] = Inl IndexError"
  by (simp add: deposited_energy_def two_layers_def one_layer_def)

section \<open>calc\_temp\_map: results\<close>

lemma is_delta_not_diffusive: "is_delta h g \<Longrightarrow> \<not> is_diffusive h g tg"
  by (auto simp: is_delta_def is_diffusive_def)

text \<open>Whatever the input, a call that returns gives an empty temperature map and an empty
  difference map.\<close>

lemma calc_temp_map_empty:
  assumes "calc_temp_map X h delays init_temp store = Inr (temp_map, delta_temp_map, ce, store')"
  shows "temp_map = [] \<and> delta_temp_map = []"
  using assms
  by (auto simp: calc_temp_map_def Let_def frame_diff_def split: sum.splits prod.splits)

text \<open>With an integrator that returns one field per time point, the first branch keeps one
  frame less than the interval's own grid has points.\<close>

lemma diffusive_temp_length:
  assumes "diffusive_temp X ce i init_temp = Inr (temp, special)"
    and "\<And>a ts dp pw fl r. calc_heat_diffusion X a ts dp pw fl = Inr r \<Longrightarrow> length r = length ts"
  shows "length temp = length (sub_delays (ce ! i)) - 1"
  using assms(1)
  by (auto simp: diffusive_temp_def Let_def split: if_splits sum.splits dest!: assms(2))

lemma check_excitation_delta_pulse:
  "check_excitation X0 (heat_of False [10] [0] [0]) [- 1, 0, 1]
     = (heat_of False [10] [0] [0], [], Inr (delta_intervals [- 1] [1], [10], [0], [0]))"
  by (simp add: check_excitation_unfold)

lemma check_excitation_delta_pulse_diffusion:
  "check_excitation X0 (heat_of True [10] [0] [0]) [- 3, - 2, - 1, 1]
     = (heat_of True [10] [0] [0], [], Inr (delta_intervals [- 3, - 2, - 1] [1], [10], [0], [0]))"
  by (simp add: check_excitation_unfold)

lemma rep2: "replicate 2 x = [x, x]"
  by (simp add: numeral_2_eq_2)

lemma upt3: "[0..<3] = [0, 1, 2]"
  by (simp add: upt_rec)

lemma interval_temp_delta:
  "interval_temp X0 (heat_of False [10] [0] [0]) (delta_intervals [- 1] [1]) 1 1 1
       [[[300], [300]], [[300], [300]]]
     = Inr ([[[0], [0]]], None, [[[300], [300]], [[300 + 20 * exp (- (1 / 2))], [300]]])"
proof -
  let ?h = "heat_of False [10] [0] [0]" and ?ce = "delta_intervals [- 1] [1]"
  have "S ?h = two_layers"
    by (simp add: heat_of_def)
  moreover have "is_delta ?h (?ce ! 1)" and "\<not> is_diffusive ?h (?ce ! 1) tg" for tg
    by (simp_all add: is_delta_def is_diffusive_def heat_of_def delta_intervals_def pulse_group_def)
  moreover have "grp_fluence (?ce ! 1) = [10]"
    by (simp add: delta_intervals_def pulse_group_def)
  ultimately show ?thesis
    by (simp add: interval_temp_def Let_def delta_two_layers_ref [simplified])
qed

text \<open>
  Claim C9: in the Delta branch (fluence present, and diffusion off or zero pulse width)
  the solver is called, its store is kept, and the field produced for the interval is one
  frame of the shape of the solver's final temperature with every entry zero.
\<close>

theorem delta_branch_all_zero:
  assumes "is_delta h (ce ! i)"
    and "interval_temp X h ce seed i init_temp store = Inr (temp, special, store')"
  shows "\<exists>final_temp delta_T.
           get_temperature_after_delta_excitation (S h) X (grp_fluence (ce ! i))
               (ArrayRef init_temp) store = Inr (final_temp, delta_T, store')
           \<and> temp = [map (map (\<lambda>t. 0)) (store' ! final_temp)]
           \<and> list_all (list_all (list_all (\<lambda>t. t = 0))) temp"
proof -
  from assms(1) have "\<not> is_diffusive h (ce ! i) (temp_gradient (store ! seed))"
    by (rule is_delta_not_diffusive)
  with assms obtain final_temp delta_T where
    run: "get_temperature_after_delta_excitation (S h) X (grp_fluence (ce ! i))
            (ArrayRef init_temp) store = Inr (final_temp, delta_T, store')"
    and temp: "temp = [map (map (\<lambda>t. 0)) (store' ! final_temp)]"
    by (auto simp: interval_temp_def Let_def split: sum.splits)
  have "list_all (list_all (\<lambda>t. t = 0)) (map (map (\<lambda>t. 0)) f)" for f :: field
    by (simp add: list_all_iff)
  with run temp show ?thesis
    by simp
qed

theorem delta_branch_all_zero_witness:
  "is_delta (heat_of False [10] [0] [0]) (delta_intervals [- 1] [1] ! 1)
   \<and> interval_temp X0 (heat_of False [10] [0] [0]) (delta_intervals [- 1] [1]) 1 1 1
         [[[300], [300]], [[300], [300]]]
       = Inr ([[[0], [0]]], None, [[[300], [300]], [[300 + 20 * exp (- (1 / 2))], [300]]])
   \<and> list_all (list_all (list_all (\<lambda>t. t = 0))) [[[0], [0 :: real]]]"
proof -
  have d: "is_delta (heat_of False [10] [0] [0]) (delta_intervals [- 1] [1] ! 1)"
    by (simp add: is_delta_def heat_of_def delta_intervals_def pulse_group_def)
  from delta_branch_all_zero [OF d interval_temp_delta]
  have "list_all (list_all (list_all (\<lambda>t. t = 0))) [[[0], [0 :: real]]]"
    by blast
  with d interval_temp_delta show ?thesis
    by blast
qed

text \<open>
  Claim C4 says that after trimming the borrowed points the frames kept for a Diffusive
  interval are as many as the points of its own time grid. The slice
  \<open>temp[start:-1-stop]\<close> ends one frame early: for the quiet interval \<open>[-3, -2, -1]\<close>
  before a delta pulse at 0 (diffusion on, no interval before, so \<open>start = 0\<close> and
  \<open>stop = 1\<close>) the integrator runs on the four times \<open>[-3, -2, -1, 0]\<close> and returns four
  frames, of which two are kept, not three.
\<close>

theorem diffusive_interval_drops_own_frame:
  "snd (snd (check_excitation X0 (heat_of True [10] [0] [0]) [- 3, - 2, - 1, 1]))
     = Inr (delta_intervals [- 3, - 2, - 1] [1], [10], [0], [0])
   \<and> sub_delays (delta_intervals [- 3, - 2, - 1] [1] ! 0) = [- 3, - 2, - 1]
   \<and> is_diffusive (heat_of True [10] [0] [0]) (delta_intervals [- 3, - 2, - 1] [1] ! 0)
         (temp_gradient [[300], [300]])
   \<and> interval_temp X0 (heat_of True [10] [0] [0]) (delta_intervals [- 3, - 2, - 1] [1]) 1 0 0
         [[[300], [300]], [[300], [300]]]
       = Inr ([[[300], [300]], [[300], [300]]], Some [[300], [300]],
              [[[300], [300]], [[300], [300]]])"
  by (simp add: check_excitation_delta_pulse_diffusion)
     (simp add: interval_temp_def is_diffusive_def temp_gradient_def diffusive_temp_def
      heat_of_def delta_intervals_def pulse_group_def quiet_def X0_def hold_diffusion_def Let_def)

text \<open>
  Claim C1 says that the returned temperature map has one frame per requested delay. The
  line that appends the frames of an interval to \<open>temp_map\<close> is commented out, so
  \<open>temp_map\<close> never grows beyond its seed frame and the returned map, the seed removed,
  has no frame: for the delays \<open>[-1, 0, 1]\<close>, a delta pulse of fluence 10 at delay 0,
  diffusion off and initial temperature 300 on the two-layer sample the call returns an
  empty map and an empty difference map.
\<close>

theorem calc_temp_map_returns_empty_map:
  "calc_temp_map X0 (heat_of False [10] [0] [0]) [- 1, 0, 1] (Scalar 300) []
     = Inr ([], [], delta_intervals [- 1] [1],
            [[[300], [300]], [[300 + 20 * exp (- (1 / 2))], [300]]])"
proof -
  let ?h = "heat_of False [10] [0] [0]" and ?ce = "delta_intervals [- 1] [1]"
  have s: "S ?h = two_layers"
    by (simp add: heat_of_def)
  have N: "number_of_layers two_layers = 2" "num_sub_systems two_layers = 1"
    by (simp_all add: two_layers_def)
  have len: "length ?ce = 3"
    by (simp add: delta_intervals_def)
  have hold: "interval_temp X0 ?h ?ce 1 i r st
      = Inr (replicate (length (sub_delays (?ce ! i))) (st ! r), None, st)"
    if "i = 0 \<or> i = 2" and "st ! r = [[a], [b]]" for i r st a b
    using that
    by (auto simp: interval_temp_def Let_def is_delta_def is_diffusive_def heat_of_def
        delta_intervals_def quiet_def reshape_def two_layers_def numeral_2_eq_2)
  have i0: "interval_temp X0 ?h ?ce 1 0 0 [[[300], [300]], [[300], [300]]]
      = Inr (replicate (length (sub_delays (?ce ! 0))) [[300], [300]], None,
             [[[300], [300]], [[300], [300]]])"
    using hold [of 0 "[[[300], [300]], [[300], [300]]]" 0] by simp
  have i2: "interval_temp X0 ?h ?ce 1 2 1 [[[300], [300]], [[300 + 20 * exp (- (1 / 2))], [300]]]
      = Inr (replicate (length (sub_delays (?ce ! 2))) [[300 + 20 * exp (- (1 / 2))], [300]], None,
             [[[300], [300]], [[300 + 20 * exp (- (1 / 2))], [300]]])"
    using hold [of 2 "[[[300], [300]], [[300 + 20 * exp (- (1 / 2))], [300]]]" 1] by simp
  show ?thesis
    by (simp add: calc_temp_map_def check_initial_temperature_def check_excitation_delta_pulse
        Let_def s N len upt3 i0 [simplified] interval_temp_delta [simplified] i2 [simplified]
        frame_diff_def rep2)
qed

end
